theory Spec2Isabelle
  imports Complex_Main
begin

section \<open>The agent core of the formation-control network\<close>

text \<open>
  A shallow embedding of \<^verbatim>\<open>src/agent_core.cpp\<close> (class \<^verbatim>\<open>AgentCore\<close>).

  Conventions of the embedding:
  \<^item> a finite C++ \<^verbatim>\<open>double\<close> is a \<^typ>\<open>real\<close>: finite arithmetic is exact, there is
    no rounding and no overflow. The members of the agent hold finite values. Where
    the code divides by a value that can be 0, the quotient is computed in the type \<open>double\<close> below, which adds
    the infinities and NaN of IEEE 754 to the reals (with a single zero, taken as
    \<open>+0\<close>); a step that stores an infinity or a NaN in a member leaves the agents
    the record can hold, and the model returns \<open>Inl (NonFinite v)\<close> with the first
    such value \<open>v\<close>. The code does not stop there: it goes on with \<open>v\<close> stored;
  \<^item> an \<^verbatim>\<open>Eigen::VectorXd\<close> is a list of reals, an \<^verbatim>\<open>Eigen::MatrixXd\<close> the list of
    its rows. Eigen indexes from 0. A coefficient access out of range, a comma
    initialiser with the wrong number of coefficients and an operation on operands of
    unequal dimensions fail Eigen's run-time assertion (\<^verbatim>\<open>eigen_assert\<close>, active unless
    the build defines \<^verbatim>\<open>NDEBUG\<close>); the model returns \<open>Inl EigenAssertion\<close> there;
  \<^item> \<^verbatim>\<open>std::vector::at\<close> and \<^verbatim>\<open>std::stoi\<close> throw; nothing in the class catches, so a
    throw ends the method and the model returns \<open>Inl\<close> of the exception;
  \<^item> the members of the class are the fields of the record \<open>agent\<close>; a method takes
    the agent and returns the updated agent. The header that declares the members is
    not among the sources: each member has the type its uses require
    (\<^verbatim>\<open>number_of_stats_\<close> an \<^verbatim>\<open>int\<close>, \<^verbatim>\<open>neighbours_\<close> a sequence of \<^verbatim>\<open>int\<close>, the gains
    and the Jacobian dense matrices, \<^verbatim>\<open>phi_dot_\<close> a vector), and a vector is a list
    whether Eigen holds it as a row or as a column;
  \<^item> the ROS console is the field \<open>console\<close>: every \<^verbatim>\<open>ROS_*_STREAM\<close> appends one entry,
    made of the severity and the fixed text of the message (streamed values are left
    out);
  \<^item> the orientation quaternion of a pose is a rotation about the z axis (roll and
    pitch are 0), kept as the angle last written: \<^verbatim>\<open>setTheta\<close> writes the field
    \<open>theta\<close>, and \<^verbatim>\<open>getTheta\<close> reads the angle back from the rotation as
    \<^verbatim>\<open>eulerAngles\<close> does, wrapped into \<open>(-\<pi>, \<pi>]\<close>.
\<close>

subsection \<open>Doubles with infinities and NaN\<close>

datatype double = Fin real | PInf | NInf | NaN

text \<open>The infinity of the sign of \<open>a\<close>; NaN for \<open>a = 0\<close>.\<close>

definition inf_of_sign :: "real \<Rightarrow> double" where
  "inf_of_sign a = (if 0 < a then PInf else if a < 0 then NInf else NaN)"

fun dneg :: "double \<Rightarrow> double" where
  "dneg (Fin a) = Fin (- a)"
| "dneg PInf = NInf"
| "dneg NInf = PInf"
| "dneg NaN = NaN"

fun dadd :: "double \<Rightarrow> double \<Rightarrow> double" where
  "dadd (Fin a) (Fin b) = Fin (a + b)"
| "dadd NaN y = NaN"
| "dadd x NaN = NaN"
| "dadd PInf NInf = NaN"
| "dadd NInf PInf = NaN"
| "dadd PInf y = PInf"
| "dadd NInf y = NInf"
| "dadd (Fin a) y = y"

definition dsub :: "double \<Rightarrow> double \<Rightarrow> double" where
  "dsub x y = dadd x (dneg y)"

fun dmul :: "double \<Rightarrow> double \<Rightarrow> double" where
  "dmul (Fin a) (Fin b) = Fin (a * b)"
| "dmul NaN y = NaN"
| "dmul x NaN = NaN"
| "dmul PInf (Fin b) = inf_of_sign b"
| "dmul NInf (Fin b) = inf_of_sign (- b)"
| "dmul (Fin a) PInf = inf_of_sign a"
| "dmul (Fin a) NInf = inf_of_sign (- a)"
| "dmul PInf PInf = PInf"
| "dmul PInf NInf = NInf"
| "dmul NInf PInf = NInf"
| "dmul NInf NInf = PInf"

fun ddiv :: "double \<Rightarrow> double \<Rightarrow> double" where
  "ddiv (Fin a) (Fin b) = (if b = 0 then inf_of_sign a else Fin (a / b))"
| "ddiv NaN y = NaN"
| "ddiv x NaN = NaN"
| "ddiv (Fin a) y = Fin 0"
| "ddiv PInf (Fin b) = (if 0 \<le> b then PInf else NInf)"
| "ddiv NInf (Fin b) = (if 0 \<le> b then NInf else PInf)"
| "ddiv x y = NaN"

text \<open>\<open>x < y\<close> on doubles: false as soon as one side is NaN.\<close>

fun dless :: "double \<Rightarrow> double \<Rightarrow> bool" where
  "dless (Fin a) (Fin b) = (a < b)"
| "dless NaN y = False"
| "dless x NaN = False"
| "dless x NInf = False"
| "dless PInf y = False"
| "dless x y = True"

text \<open>\<^verbatim>\<open>std::min(a, b)\<close> is \<^verbatim>\<open>(b < a) ? b : a\<close> and \<^verbatim>\<open>std::max(a, b)\<close> is
  \<^verbatim>\<open>(a < b) ? b : a\<close>.\<close>

definition dmin :: "double \<Rightarrow> double \<Rightarrow> double" where
  "dmin x y = (if dless y x then y else x)"

definition dmax :: "double \<Rightarrow> double \<Rightarrow> double" where
  "dmax x y = (if dless x y then y else x)"

subsection \<open>Errors, the error monad and the console\<close>

datatype error =
    EigenAssertion
  | VectorAtOutOfRange
  | StoiInvalidArgument
  | StoiOutOfRange
  | NonFinite double

definition bindE :: "error + 'a \<Rightarrow> ('a \<Rightarrow> error + 'b) \<Rightarrow> error + 'b" where
  "bindE m f = (case m of Inl e \<Rightarrow> Inl e | Inr x \<Rightarrow> f x)"

text \<open>Storing a double in a member of the agent.\<close>

definition stored :: "double \<Rightarrow> error + real" where
  "stored v = (case v of Fin a \<Rightarrow> Inr a | _ \<Rightarrow> Inl (NonFinite v))"

datatype severity = LogDebug | LogInfo | LogWarn | LogError

type_synonym log_entry = "severity \<times> string"

subsection \<open>Messages\<close>

text \<open>\<^verbatim>\<open>agent_test::FormationStatistics\<close>: five \<^verbatim>\<open>float64\<close> moments. A ROS message is
  constructed with every numeric field 0.\<close>

record FormationStatistics =
  m_x :: real
  m_y :: real
  m_xx :: real
  m_xy :: real
  m_yy :: real

definition FormationStatistics_default :: FormationStatistics where
  "FormationStatistics_default = \<lparr>m_x = 0, m_y = 0, m_xx = 0, m_xy = 0, m_yy = 0\<rparr>"

text \<open>An element of \<^verbatim>\<open>FormationStatisticsArray::vector\<close>: the sender in
  \<^verbatim>\<open>header.frame_id\<close> and its statistics.\<close>

record FormationStatisticsStamped =
  frame_id :: string
  stats :: FormationStatistics

text \<open>\<^verbatim>\<open>geometry_msgs::Pose\<close> and \<^verbatim>\<open>geometry_msgs::Twist\<close>, restricted to the planar
  components the class uses.\<close>

record Pose =
  position_x :: real
  position_y :: real
  theta :: real

record Twist =
  linear_x :: real
  linear_y :: real
  angular_z :: real

subsection \<open>Eigen vectors and matrices\<close>

type_synonym vec = "real list"
type_synonym mat = "real list list"

text \<open>\<^verbatim>\<open>v(i)\<close>, read.\<close>

definition coeff :: "vec \<Rightarrow> nat \<Rightarrow> error + real" where
  "coeff v i = (if i < length v then Inr (v ! i) else Inl EigenAssertion)"

definition mat_rows :: "mat \<Rightarrow> nat" where
  "mat_rows m = length m"

definition mat_cols :: "mat \<Rightarrow> nat" where
  "mat_cols m = (case m of [] \<Rightarrow> 0 | r # _ \<Rightarrow> length r)"

text \<open>\<^verbatim>\<open>m(i,j) = a\<close>, write.\<close>

definition mat_set :: "mat \<Rightarrow> nat \<Rightarrow> nat \<Rightarrow> real \<Rightarrow> error + mat" where
  "mat_set m i j a =
     (if i < mat_rows m \<and> j < mat_cols m then Inr (m[i := (m ! i)[j := a]])
      else Inl EigenAssertion)"

text \<open>\<^verbatim>\<open>MatrixXd::Identity(r, c)\<close>.\<close>

definition mat_identity :: "nat \<Rightarrow> nat \<Rightarrow> mat" where
  "mat_identity r c = map (\<lambda>i. map (\<lambda>j. if i = j then 1 else 0) [0..<c]) [0..<r]"

text \<open>\<^verbatim>\<open>v.asDiagonal()\<close>.\<close>

definition mat_diagonal :: "vec \<Rightarrow> mat" where
  "mat_diagonal v =
     map (\<lambda>i. map (\<lambda>j. if i = j then v ! i else 0) [0..<length v]) [0..<length v]"

definition mat_transpose :: "mat \<Rightarrow> mat" where
  "mat_transpose m = map (\<lambda>j. map (\<lambda>r. r ! j) m) [0..<mat_cols m]"

definition dot :: "vec \<Rightarrow> vec \<Rightarrow> real" where
  "dot u v = sum_list (map (\<lambda>(a, b). a * b) (zip u v))"

definition mat_mul :: "mat \<Rightarrow> mat \<Rightarrow> error + mat" where
  "mat_mul a b =
     (if mat_cols a = mat_rows b
      then Inr (map (\<lambda>r. map (dot r) (mat_transpose b)) a)
      else Inl EigenAssertion)"

definition mat_vec :: "mat \<Rightarrow> vec \<Rightarrow> error + vec" where
  "mat_vec a v =
     (if mat_cols a = length v then Inr (map (\<lambda>r. dot r v) a) else Inl EigenAssertion)"

definition vec_add :: "vec \<Rightarrow> vec \<Rightarrow> error + vec" where
  "vec_add u v =
     (if length u = length v then Inr (map (\<lambda>(a, b). a + b) (zip u v))
      else Inl EigenAssertion)"

definition vec_sub :: "vec \<Rightarrow> vec \<Rightarrow> error + vec" where
  "vec_sub u v =
     (if length u = length v then Inr (map (\<lambda>(a, b). a - b) (zip u v))
      else Inl EigenAssertion)"

definition vec_scale :: "vec \<Rightarrow> real \<Rightarrow> vec" where
  "vec_scale v k = map (\<lambda>a. a * k) v"

definition mat_add :: "mat \<Rightarrow> mat \<Rightarrow> error + mat" where
  "mat_add a b =
     (if mat_rows a = mat_rows b \<and> mat_cols a = mat_cols b
      then Inr (map (\<lambda>(r, s). map (\<lambda>(x, y). x + y) (zip r s)) (zip a b))
      else Inl EigenAssertion)"

text \<open>\<^verbatim>\<open>(m.rowwise() - x).colwise().sum()\<close>: \<open>x\<close> is subtracted from every row and the
  differences are added up column by column. The result has as many entries as \<open>x\<close>.\<close>

definition rowwise_sub :: "mat \<Rightarrow> vec \<Rightarrow> error + mat" where
  "rowwise_sub m x =
     (if mat_cols m = length x then Inr (map (\<lambda>r. map (\<lambda>(a, b). a - b) (zip r x)) m)
      else Inl EigenAssertion)"

definition colwise_sum :: "mat \<Rightarrow> vec" where
  "colwise_sum m = map (\<lambda>j. sum_list (map (\<lambda>r. r ! j) m)) [0..<mat_cols m]"

text \<open>\<^verbatim>\<open>v << a, b, ...\<close>: the comma initialiser fills \<open>v\<close> and asserts that the number of
  coefficients is the size of \<open>v\<close>.\<close>

definition comma_init :: "vec \<Rightarrow> real list \<Rightarrow> error + vec" where
  "comma_init v as = (if length v = length as then Inr as else Inl EigenAssertion)"

subsection \<open>The agent\<close>

record agent =
  number_of_stats :: int
  number_of_velocities :: int
  sample_time :: real
  velocity_virtual_threshold :: real
  los_distance_threshold :: real
  speed_min :: real
  speed_max :: real
  steer_min :: real
  steer_max :: real
  k_p_speed :: real
  k_i_speed :: real
  k_p_steer :: real
  vehicle_length :: real
  gamma :: mat
  lambda :: mat
  b :: mat
  jacob_phi :: mat
  phi_dot :: vec
  pose :: Pose
  twist :: Twist
  pose_virtual :: Pose
  twist_virtual :: Twist
  estimated_statistics :: FormationStatistics
  target_statistics :: FormationStatistics
  received_statistics :: "FormationStatistics list"
  neighbours :: "int list"
  los_distance :: real
  los_angle :: real
  speed_error :: real
  speed_integral :: real
  speed_command_sat :: real
  steer_command_sat :: real
  console :: "log_entry list"

definition ros_log :: "severity \<Rightarrow> string \<Rightarrow> agent \<Rightarrow> agent" where
  "ros_log s txt st = st\<lparr>console := console st @ [(s, txt)]\<rparr>"

subsection \<open>The statistics codec\<close>

text \<open>\<^verbatim>\<open>statsMsgToVector\<close>: a vector of \<^verbatim>\<open>number_of_stats_\<close> entries is filled by a comma
  initialiser of five coefficients.\<close>

definition statsMsgToVector :: "agent \<Rightarrow> FormationStatistics \<Rightarrow> error + vec" where
  "statsMsgToVector st msg =
     (if number_of_stats st < 0 then Inl EigenAssertion
      else comma_init (replicate (nat (number_of_stats st)) 0)
             [m_x msg, m_y msg, m_xx msg, m_xy msg, m_yy msg])"

text \<open>\<^verbatim>\<open>statsVectorToMsg\<close>: after the size check the moments are read at the indices
  1, 2, 3, 4 and 5.\<close>

definition statsVectorToMsg ::
  "agent \<Rightarrow> vec \<Rightarrow> error + (FormationStatistics \<times> agent)" where
  "statsVectorToMsg st v =
     (if int (length v) \<noteq> number_of_stats st
      then Inr (FormationStatistics_default,
                ros_log LogError ''[AgentCore::statsVectorToMsg] Wrong statistics vector size'' st)
      else
        bindE (coeff v 1) (\<lambda>a1.
        bindE (coeff v 2) (\<lambda>a2.
        bindE (coeff v 3) (\<lambda>a3.
        bindE (coeff v 4) (\<lambda>a4.
        bindE (coeff v 5) (\<lambda>a5.
          Inr (\<lparr>m_x = a1, m_y = a2, m_xx = a3, m_xy = a4, m_yy = a5\<rparr>, st)))))))"

text \<open>\<^verbatim>\<open>statsMsgToMatrix\<close>: a square matrix of \<^verbatim>\<open>number_of_stats_\<close> rows; row \<open>i\<close> is the
  vector of \<^verbatim>\<open>msg.at(i)\<close>, for \<open>i\<close> from 0 below \<^verbatim>\<open>number_of_stats_\<close>.\<close>

primrec statsMsgToMatrix_rows ::
  "agent \<Rightarrow> FormationStatistics list \<Rightarrow> nat list \<Rightarrow> error + mat" where
  "statsMsgToMatrix_rows st msg [] = Inr []"
| "statsMsgToMatrix_rows st msg (i # is) =
     (if i < length msg
      then bindE (statsMsgToVector st (msg ! i)) (\<lambda>r.
           bindE (statsMsgToMatrix_rows st msg is) (\<lambda>rs. Inr (r # rs)))
      else Inl VectorAtOutOfRange)"

definition statsMsgToMatrix :: "agent \<Rightarrow> FormationStatistics list \<Rightarrow> error + mat" where
  "statsMsgToMatrix st msg =
     (if number_of_stats st < 0 then Inl EigenAssertion
      else statsMsgToMatrix_rows st msg [0..<nat (number_of_stats st)])"

subsection \<open>Library functions of C and C++\<close>

text \<open>\<^verbatim>\<open>std::atan2(y, x)\<close> on the reals (no signed zero): the angle of the point
  \<open>(x, y)\<close> in \<open>(-\<pi>, \<pi>]\<close>, and 0 at the origin.\<close>

definition atan2 :: "real \<Rightarrow> real \<Rightarrow> real" where
  "atan2 y x =
     (if 0 < x then arctan (y / x)
      else if x < 0 then (if 0 \<le> y then arctan (y / x) + pi else arctan (y / x) - pi)
      else if 0 < y then pi / 2
      else if y < 0 then - pi / 2
      else 0)"

text \<open>\<^verbatim>\<open>std::fmod(a, m)\<close> for \<open>m \<noteq> 0\<close>: \<open>a\<close> minus \<open>m\<close> times the quotient truncated towards
  zero; the result has the sign of \<open>a\<close>.\<close>

definition fmod :: "real \<Rightarrow> real \<Rightarrow> real" where
  "fmod a m =
     a - m * of_int (if 0 \<le> a / m then \<lfloor>a / m\<rfloor> else \<lceil>a / m\<rceil>)"

text \<open>\<^verbatim>\<open>std::tan\<close>: the quotient of sine and cosine, infinite where the cosine is 0.\<close>

definition dtan :: "real \<Rightarrow> double" where
  "dtan a = ddiv (Fin (sin a)) (Fin (cos a))"

text \<open>\<^verbatim>\<open>std::stoi(s)\<close> (base 10, 32-bit \<^verbatim>\<open>int\<close>): leading white space is skipped, an
  optional sign is read, then the longest run of decimal digits; what follows the
  digits is ignored. No digit: \<^verbatim>\<open>std::invalid_argument\<close>. A value that does not fit an
  \<^verbatim>\<open>int\<close>: \<^verbatim>\<open>std::out_of_range\<close>.\<close>

definition isspace :: "char \<Rightarrow> bool" where
  "isspace c = (c \<in> set [CHR '' '', CHR 0x09, CHR 0x0A, CHR 0x0B, CHR 0x0C, CHR 0x0D])"

definition isdigit :: "char \<Rightarrow> bool" where
  "isdigit c = (48 \<le> (of_char c :: nat) \<and> (of_char c :: nat) \<le> 57)"

definition digit_value :: "char \<Rightarrow> int" where
  "digit_value c = int (of_char c) - 48"

definition digits_value :: "string \<Rightarrow> int" where
  "digits_value ds = foldl (\<lambda>acc c. 10 * acc + digit_value c) 0 ds"

definition stoi :: "string \<Rightarrow> error + int" where
  "stoi s =
     (let s1 = dropWhile isspace s;
          neg = (s1 \<noteq> [] \<and> hd s1 = CHR ''-'');
          s2 = (if s1 \<noteq> [] \<and> (hd s1 = CHR ''-'' \<or> hd s1 = CHR ''+'') then tl s1 else s1);
          ds = takeWhile isdigit s2;
          v = (if neg then - digits_value ds else digits_value ds)
      in if ds = [] then Inl StoiInvalidArgument
         else if v < - 2147483648 \<or> 2147483647 < v then Inl StoiOutOfRange
         else Inr v)"

subsection \<open>Helpers of the class\<close>

text \<open>\<^verbatim>\<open>getTheta\<close>: the third of the Euler angles of the rotation, which for a rotation
  by \<open>t\<close> about the z axis is \<open>atan2 (sin t) (cos t)\<close>.\<close>

definition getTheta :: "Pose \<Rightarrow> real" where
  "getTheta p = atan2 (sin (theta p)) (cos (theta p))"

text \<open>\<^verbatim>\<open>setTheta\<close>: the rotation is rebuilt with the new angle about the z axis.\<close>

definition setTheta :: "Pose \<Rightarrow> real \<Rightarrow> Pose" where
  "setTheta p t = p\<lparr>theta := t\<rparr>"

text \<open>\<^verbatim>\<open>integrator\<close>: \<^verbatim>\<open>out_old + k*sample_time_*(in_old + in_new)/2\<close>.\<close>

definition integrator :: "agent \<Rightarrow> real \<Rightarrow> real \<Rightarrow> real \<Rightarrow> real \<Rightarrow> real" where
  "integrator st out_old in_old in_new k =
     out_old + k * sample_time st * (in_old + in_new) / 2"

text \<open>\<^verbatim>\<open>saturation\<close>: \<^verbatim>\<open>std::min(std::max(value, min), max)\<close>.\<close>

definition saturation :: "real \<Rightarrow> real \<Rightarrow> real \<Rightarrow> real" where
  "saturation val lo hi = min (max val lo) hi"

text \<open>The same two functions on doubles that may be infinite or NaN.\<close>

definition dintegrator :: "agent \<Rightarrow> double \<Rightarrow> double \<Rightarrow> double \<Rightarrow> double \<Rightarrow> double" where
  "dintegrator st out_old in_old in_new k =
     dadd out_old (ddiv (dmul (dmul k (Fin (sample_time st))) (dadd in_old in_new)) (Fin 2))"

definition dsaturation :: "double \<Rightarrow> double \<Rightarrow> double \<Rightarrow> double" where
  "dsaturation val lo hi = dmin (dmax val lo) hi"

subsection \<open>The consensus step\<close>

definition consensus :: "agent \<Rightarrow> error + agent" where
  "consensus st =
     bindE (statsMsgToVector st (estimated_statistics st)) (\<lambda>x.
     bindE (statsMsgToMatrix st (received_statistics st)) (\<lambda>x_j.
     let st1 = st\<lparr>received_statistics := []\<rparr> in
     bindE (comma_init (phi_dot st1)
              [linear_x (twist_virtual st1),
               linear_y (twist_virtual st1),
               2 * position_x (pose_virtual st1) * linear_x (twist_virtual st1),
               position_y (pose_virtual st1) * linear_x (twist_virtual st1)
                 + position_x (pose_virtual st1) * linear_y (twist_virtual st1),
               2 * position_y (pose_virtual st1) * linear_y (twist_virtual st1)]) (\<lambda>phi.
     let st2 = st1\<lparr>phi_dot := phi\<rparr> in
     bindE (rowwise_sub x_j x) (\<lambda>d.
     bindE (vec_add (vec_scale (phi_dot st2) (sample_time st2))
                    (vec_scale (colwise_sum d) (sample_time st2))) (\<lambda>incr.
     bindE (vec_add x incr) (\<lambda>x'.
     bindE (statsVectorToMsg st2 x') (\<lambda>(msg, st3).
       Inr (ros_log LogDebug ''[AgentCore::consensus] Estimated statistics''
              (st3\<lparr>estimated_statistics := msg\<rparr>)))))))))"

subsection \<open>The control step\<close>

text \<open>Lines 123 to 126: the four writes into \<^verbatim>\<open>jacob_phi_\<close>.\<close>

definition control_jacobian :: "agent \<Rightarrow> error + agent" where
  "control_jacobian st =
     bindE (mat_set (jacob_phi st) 3 1 (2 * position_x (pose_virtual st))) (\<lambda>j1.
     bindE (mat_set j1 4 1 (position_y (pose_virtual st))) (\<lambda>j2.
     bindE (mat_set j2 4 2 (position_x (pose_virtual st))) (\<lambda>j3.
     bindE (mat_set j3 5 2 (2 * position_y (pose_virtual st))) (\<lambda>j4.
       Inr (st\<lparr>jacob_phi := j4\<rparr>)))))"

text \<open>Lines 129 and 130. \<^verbatim>\<open>inverse()\<close> is Eigen's; the model takes it as the
  parameter \<open>minv\<close> and keeps Eigen's assertion that the matrix is square.\<close>

definition control_law :: "(mat \<Rightarrow> mat) \<Rightarrow> agent \<Rightarrow> vec \<Rightarrow> error + vec" where
  "control_law minv st stats_error =
     bindE (mat_mul (mat_transpose (jacob_phi st)) (lambda st)) (\<lambda>jl.
     bindE (mat_mul jl (jacob_phi st)) (\<lambda>jlj.
     bindE (mat_add (b st) jlj) (\<lambda>a.
     if mat_rows a \<noteq> mat_cols a then Inl EigenAssertion else
     bindE (mat_mul (minv a) (mat_transpose (jacob_phi st))) (\<lambda>c1.
     bindE (mat_mul c1 (gamma st)) (\<lambda>c2.
       mat_vec c2 stats_error)))))"

text \<open>Lines 133 to 136: the saturation of the command.\<close>

definition control_saturation :: "agent \<Rightarrow> vec \<Rightarrow> error + vec" where
  "control_saturation st u =
     bindE (coeff u 1) (\<lambda>u1.
     bindE (coeff u 2) (\<lambda>u2.
     let current_velocity_virtual = sqrt (u1 ^ 2 + u2 ^ 2) in
     if current_velocity_virtual > velocity_virtual_threshold st
     then bindE (stored (ddiv (Fin (velocity_virtual_threshold st))
                              (Fin current_velocity_virtual))) (\<lambda>k.
            Inr (vec_scale u k))
     else Inr u))"

text \<open>Lines 138 to 141: the integration of the virtual position and the new
  virtual twist.\<close>

definition control_integrate :: "agent \<Rightarrow> vec \<Rightarrow> error + agent" where
  "control_integrate st u =
     bindE (coeff u 1) (\<lambda>u1.
     let st1 = st\<lparr>pose_virtual := (pose_virtual st)\<lparr>position_x :=
                  integrator st (position_x (pose_virtual st)) (linear_x (twist_virtual st)) u1 1\<rparr>\<rparr> in
     bindE (coeff u 2) (\<lambda>u2.
     let st2 = st1\<lparr>pose_virtual := (pose_virtual st1)\<lparr>position_y :=
                  integrator st1 (position_y (pose_virtual st1)) (linear_y (twist_virtual st1)) u2 1\<rparr>\<rparr> in
     bindE (coeff u 1) (\<lambda>v1.
     let st3 = st2\<lparr>twist_virtual := (twist_virtual st2)\<lparr>linear_x := v1\<rparr>\<rparr> in
     bindE (coeff u 2) (\<lambda>v2.
     let st4 = st3\<lparr>twist_virtual := (twist_virtual st3)\<lparr>linear_y := v2\<rparr>\<rparr> in
       Inr (ros_log LogDebug ''[AgentCore::control] Virtual agent twist''
             (ros_log LogDebug ''[AgentCore::control] Virtual agent pose'' st4))))))"

definition control :: "(mat \<Rightarrow> mat) \<Rightarrow> agent \<Rightarrow> error + agent" where
  "control minv st =
     bindE (statsMsgToVector st (target_statistics st)) (\<lambda>t.
     bindE (statsMsgToVector st (estimated_statistics st)) (\<lambda>e.
     bindE (vec_sub t e) (\<lambda>stats_error.
     bindE (control_jacobian st) (\<lambda>st1.
     bindE (control_law minv st1 stats_error) (\<lambda>u.
     bindE (control_saturation st1 u) (\<lambda>u_sat.
       control_integrate st1 u_sat))))))"

subsection \<open>The guidance step\<close>

text \<open>Lines 180 to 185 on doubles: the new speed error, the new speed integral and the
  saturated speed command, from the line-of-sight distance already stored.\<close>

definition guidance_speed :: "agent \<Rightarrow> double \<times> double \<times> double" where
  "guidance_speed st =
     (let speed_reference =
            dmin (ddiv (dmul (Fin (speed_max st)) (Fin (los_distance st)))
                       (Fin (los_distance_threshold st)))
                 (Fin (speed_max st));
          speed_error_old = Fin (speed_error st);
          speed_error_new =
            dsub speed_reference (Fin (sqrt (linear_x (twist st) ^ 2 + linear_y (twist st) ^ 2)));
          speed_integral_new =
            dintegrator st (Fin (speed_integral st)) speed_error_old speed_error_new
              (Fin (k_i_speed st));
          speed_command = dmul (Fin (k_p_speed st)) (dadd speed_error_new speed_integral_new)
      in (speed_error_new, speed_integral_new,
          dsaturation speed_command (Fin (speed_min st)) (Fin (speed_max st))))"

definition guidance :: "agent \<Rightarrow> error + agent" where
  "guidance st =
     (let st1 = st\<lparr>los_distance :=
                   sqrt ((position_x (pose_virtual st) - position_x (pose st)) ^ 2
                         + (position_y (pose_virtual st) - position_y (pose st)) ^ 2)\<rparr>;
          st2 = st1\<lparr>los_angle :=
                   atan2 (position_y (pose_virtual st1) - position_y (pose st1))
                         (position_x (pose_virtual st1) - position_x (pose st1))\<rparr>
      in case guidance_speed st2 of (speed_error_new, speed_integral_new, speed_command_sat_new) \<Rightarrow>
         bindE (stored speed_error_new) (\<lambda>e.
         bindE (stored speed_integral_new) (\<lambda>i.
         bindE (stored speed_command_sat_new) (\<lambda>c.
         let st5 = ros_log LogDebug ''[AgentCore::guidance] Speed command''
                     (st2\<lparr>speed_error := e, speed_integral := i, speed_command_sat := c\<rparr>);
             steer_command =
               k_p_steer st5 * fmod (los_angle st5 - getTheta (pose st5)) pi
         in Inr (ros_log LogDebug ''[AgentCore::guidance] Steer command''
                   (st5\<lparr>steer_command_sat :=
                      saturation steer_command (steer_min st5) (steer_max st5)\<rparr>))))))"

subsection \<open>The dynamics step\<close>

text \<open>Line 152 is a chained assignment: it stores the new rate in \<^verbatim>\<open>twist_.linear.y\<close>
  and in \<^verbatim>\<open>y_dot_new\<close>.\<close>

definition dynamics :: "agent \<Rightarrow> error + agent" where
  "dynamics st =
     (let th = getTheta (pose st);
          x_dot_new = speed_command_sat st * cos th;
          st1 = st\<lparr>twist := (twist st)\<lparr>linear_y := speed_command_sat st * sin th\<rparr>\<rparr>;
          y_dot_new = linear_y (twist st1)
      in bindE (stored (dmul (ddiv (Fin (speed_command_sat st1)) (Fin (vehicle_length st1)))
                             (dtan (steer_command_sat st1)))) (\<lambda>theta_dot_new.
      let st2 = st1\<lparr>pose := (pose st1)\<lparr>position_x :=
                   integrator st1 (position_x (pose st1)) (linear_x (twist st1)) x_dot_new 1\<rparr>\<rparr>;
          st3 = st2\<lparr>pose := (pose st2)\<lparr>position_y :=
                   integrator st2 (position_y (pose st2)) (linear_y (twist st2)) y_dot_new 1\<rparr>\<rparr>;
          st4 = st3\<lparr>pose := setTheta (pose st3)
                   (integrator st3 th (angular_z (twist st3)) theta_dot_new 1)\<rparr>;
          st5 = st4\<lparr>twist := (twist st4)\<lparr>linear_x := x_dot_new\<rparr>\<rparr>;
          st6 = st5\<lparr>twist := (twist st5)\<lparr>linear_y := y_dot_new\<rparr>\<rparr>;
          st7 = st6\<lparr>twist := (twist st6)\<lparr>angular_z := theta_dot_new\<rparr>\<rparr>
      in Inr (ros_log LogDebug ''[AgentCore::dynamics] Agent twist''
                (ros_log LogDebug ''[AgentCore::dynamics] Agent pose'' st7))))"

subsection \<open>The receive handler\<close>

text \<open>The loop of \<^verbatim>\<open>receivedStatsCallback\<close> over \<^verbatim>\<open>received.vector\<close>.\<close>

fun receivedStatsCallback_loop ::
  "FormationStatisticsStamped list \<Rightarrow> agent \<Rightarrow> error + agent" where
  "receivedStatsCallback_loop [] st = Inr st"
| "receivedStatsCallback_loop (d # ds) st =
     bindE (stoi (frame_id d)) (\<lambda>k.
       receivedStatsCallback_loop ds
         (if k \<in> set (neighbours st)
          then st\<lparr>received_statistics := received_statistics st @ [stats d]\<rparr>
          else st))"

definition receivedStatsCallback ::
  "FormationStatisticsStamped list \<Rightarrow> agent \<Rightarrow> error + agent" where
  "receivedStatsCallback received st =
     (let st1 = (if received_statistics st \<noteq> []
                 then ros_log LogWarn
                   ''[AgentCore::receivedStatsCallback] Last received statistics has not been used.'' st
                 else st)
      in bindE (receivedStatsCallback_loop received st1) (\<lambda>st2.
           Inr (ros_log LogDebug ''[AgentCore::receivedStatsCallback] Received statistics'' st2)))"

text \<open>\<^verbatim>\<open>targetStatsCallback\<close>.\<close>

definition targetStatsCallback :: "FormationStatistics \<Rightarrow> agent \<Rightarrow> agent" where
  "targetStatsCallback target st =
     ros_log LogDebug ''[AgentCore::targetStatsCallback] New values''
       (ros_log LogInfo ''[AgentCore::targetStatsCallback] Target statistics has been changed.''
          (st\<lparr>target_statistics := target\<rparr>))"

subsection \<open>An agent to run the steps on\<close>

text \<open>The configuration the constructor builds for five statistics and two velocities
  with its own defaults for the gains (\<open>gamma\<close> the identity, \<open>lambda\<close> zero, \<open>b\<close> the
  identity, \<^verbatim>\<open>jacob_phi_\<close> the 5 by 2 identity), a sample time of 1, unit limits, the
  agent at the origin at rest, and the neighbours 1 and 2.\<close>

definition agent0 :: agent where
  "agent0 = \<lparr>
     number_of_stats = 5, number_of_velocities = 2, sample_time = 1,
     velocity_virtual_threshold = 1, los_distance_threshold = 1,
     speed_min = 0, speed_max = 1, steer_min = - 1, steer_max = 1,
     k_p_speed = 1, k_i_speed = 1, k_p_steer = 1, vehicle_length = 1,
     gamma = mat_diagonal [1, 1, 1, 1, 1],
     lambda = mat_diagonal [0, 0, 0, 0, 0],
     b = mat_diagonal [1, 1],
     jacob_phi = mat_identity 5 2,
     phi_dot = [0, 0, 0, 0, 0],
     pose = \<lparr>position_x = 0, position_y = 0, theta = 0\<rparr>,
     twist = \<lparr>linear_x = 0, linear_y = 0, angular_z = 0\<rparr>,
     pose_virtual = \<lparr>position_x = 0, position_y = 0, theta = 0\<rparr>,
     twist_virtual = \<lparr>linear_x = 0, linear_y = 0, angular_z = 0\<rparr>,
     estimated_statistics = FormationStatistics_default,
     target_statistics = FormationStatistics_default,
     received_statistics = [],
     neighbours = [1, 2],
     los_distance = 0, los_angle = 0, speed_error = 0, speed_integral = 0,
     speed_command_sat = 0, steer_command_sat = 0,
     console = [] \<rparr>"

text \<open>An observation with all five moments equal, to fill buffers with.\<close>

definition obs :: "real \<Rightarrow> FormationStatistics" where
  "obs a = \<lparr>m_x = a, m_y = a, m_xx = a, m_xy = a, m_yy = a\<rparr>"

text \<open>The agent at rest, heading along the y axis, with the speed command 1 that a
  guidance step has left.\<close>

definition agent_heading_y :: agent where
  "agent_heading_y =
     agent0\<lparr>pose := \<lparr>position_x = 0, position_y = 0, theta = pi / 2\<rparr>,
            speed_command_sat := 1\<rparr>"

text \<open>The agent at rest with its virtual agent one unit ahead and a line-of-sight
  threshold of 2.\<close>

definition agent_los :: agent where
  "agent_los =
     agent0\<lparr>pose_virtual := \<lparr>position_x = 1, position_y = 0, theta = 0\<rparr>,
            los_distance_threshold := 2\<rparr>"

text \<open>The agent with the line-of-sight threshold configured as 0, its virtual agent at
  its own position.\<close>

definition agent_threshold_zero :: agent where
  "agent_threshold_zero = agent0\<lparr>los_distance_threshold := 0\<rparr>"

subsection \<open>Integer strings\<close>

text \<open>A string that is a decimal integer as a whole: an optional sign and then one or
  more decimal digits, nothing before and nothing after. This is the reading of
  ``a valid integer string'' that \<^verbatim>\<open>std::stoi\<close> is compared with; it is not taken from
  the code.\<close>

definition valid_integer_string :: "string \<Rightarrow> bool" where
  "valid_integer_string s =
     (let ds = (if s \<noteq> [] \<and> (hd s = CHR ''-'' \<or> hd s = CHR ''+'') then tl s else s)
      in ds \<noteq> [] \<and> list_all isdigit ds)"

section \<open>Properties\<close>

subsection \<open>Facts about the error monad and the Eigen operations\<close>

lemma bindE_Inr: "bindE m f = Inr y \<Longrightarrow> \<exists>x. m = Inr x \<and> f x = Inr y"
  by (cases m) (simp_all add: bindE_def)

lemma statsMsgToVector_Inr:
  "statsMsgToVector st msg = Inr x \<Longrightarrow> number_of_stats st = 5 \<and> length x = 5"
  by (auto simp: statsMsgToVector_def comma_init_def split: if_splits)

lemma vec_add_Inr: "vec_add u v = Inr w \<Longrightarrow> length w = length u"
  by (auto simp: vec_add_def split: if_splits)

lemma mat_set_rows:
  "mat_set m i j a = Inr m' \<Longrightarrow> i < mat_rows m \<and> mat_rows m' = mat_rows m"
  by (auto simp: mat_set_def mat_rows_def split: if_splits)

subsection \<open>The statistics codec\<close>

text \<open>With five statistics configured, a vector of five entries has the indices 0 to 4,
  so the read at index 5 fails: \<^verbatim>\<open>statsVectorToMsg\<close> returns no message for any vector
  of the configured size.\<close>

lemma statsVectorToMsg_five:
  "number_of_stats st = 5 \<Longrightarrow> length v = 5 \<Longrightarrow> statsVectorToMsg st v = Inl EigenAssertion"
  by (simp add: statsVectorToMsg_def coeff_def bindE_def)

text \<open>Claim C2 (the codec round-trips: message to vector to message is the identity, and
  vector to message to vector is the identity, each moment at its own position).
  The code does not: for the message with moments 1, 2, 3, 4, 5 the conversion back
  reads the indices 1 to 5 of a five-entry vector and fails at index 5, and so does
  the conversion of the vector (1, 2, 3, 4, 5).\<close>

theorem stats_codec_roundtrip_fails:
  "bindE (statsMsgToVector agent0 \<lparr>m_x = 1, m_y = 2, m_xx = 3, m_xy = 4, m_yy = 5\<rparr>)
     (statsVectorToMsg agent0) = Inl EigenAssertion
   \<and> statsVectorToMsg agent0 [1, 2, 3, 4, 5] = Inl EigenAssertion"
  by (simp add: bindE_def statsMsgToVector_def statsVectorToMsg_def comma_init_def
      coeff_def agent0_def)

text \<open>Claim C8: with the statistics dimension configured as 5, converting a vector of any
  other length logs one error and returns the message with all five moments 0; the
  agent is otherwise unchanged.\<close>

theorem statsVectorToMsg_wrong_size:
  "number_of_stats st = 5 \<Longrightarrow> length v \<noteq> 5 \<Longrightarrow>
   statsVectorToMsg st v =
     Inr (\<lparr>m_x = 0, m_y = 0, m_xx = 0, m_xy = 0, m_yy = 0\<rparr>,
          st\<lparr>console := console st @
            [(LogError, ''[AgentCore::statsVectorToMsg] Wrong statistics vector size'')]\<rparr>)"
  by (simp add: statsVectorToMsg_def FormationStatistics_default_def ros_log_def)

theorem statsVectorToMsg_wrong_size_witness:
  "number_of_stats agent0 = 5 \<and> length [1, 2, 3 :: real] \<noteq> 5 \<and>
   statsVectorToMsg agent0 [1, 2, 3] =
     Inr (\<lparr>m_x = 0, m_y = 0, m_xx = 0, m_xy = 0, m_yy = 0\<rparr>,
          agent0\<lparr>console :=
            [(LogError, ''[AgentCore::statsVectorToMsg] Wrong statistics vector size'')]\<rparr>)"
  using statsVectorToMsg_wrong_size [of agent0 "[1, 2, 3]"] by (simp add: agent0_def)

subsection \<open>The consensus step\<close>

text \<open>\<^verbatim>\<open>statsMsgToMatrix\<close> reads exactly the first five buffered observations: it throws
  on a shorter buffer and ignores what follows the fifth.\<close>

lemma statsMsgToMatrix_short:
  assumes "number_of_stats st = 5" and "length msg < 5"
  shows "statsMsgToMatrix st msg = Inl VectorAtOutOfRange"
proof -
  have upt5: "[0..<5] = [0, 1, 2, 3, 4]" by (simp add: upt_conv_Cons)
  have v: "\<And>m. statsMsgToVector st m = Inr [m_x m, m_y m, m_xx m, m_xy m, m_yy m]"
    using assms(1) by (simp add: statsMsgToVector_def comma_init_def)
  from assms(2) have "length msg = 0 \<or> length msg = 1 \<or> length msg = 2
      \<or> length msg = 3 \<or> length msg = 4" by arith
  then show ?thesis
    using assms(1) by (auto simp: statsMsgToMatrix_def upt5 v bindE_def)
qed

lemma statsMsgToMatrix_first_five:
  assumes "number_of_stats st = 5" and "5 \<le> length msg"
  shows "statsMsgToMatrix st msg =
           Inr (map (\<lambda>m. [m_x m, m_y m, m_xx m, m_xy m, m_yy m]) (take 5 msg))"
proof -
  have upt5: "[0..<5] = [0, 1, 2, 3, 4]" by (simp add: upt_conv_Cons)
  have v: "\<And>m. statsMsgToVector st m = Inr [m_x m, m_y m, m_xx m, m_xy m, m_yy m]"
    using assms(1) by (simp add: statsMsgToVector_def comma_init_def)
  have "take 5 msg = take 5 (map ((!) msg) [0..<length msg])"
    by (simp add: map_nth)
  also have "\<dots> = map ((!) msg) [0..<5]"
    using assms(2) by (simp only: take_map take_upt add_0)
  finally have t: "take 5 msg = map ((!) msg) [0..<5]" .
  from assms(2) have "msg \<noteq> []" by auto
  with t show ?thesis
    using assms by (simp add: statsMsgToMatrix_def upt5 v bindE_def)
qed

text \<open>No run of the consensus step returns: either the dimension is not 5 and the first
  conversion fails, or the buffer is shorter than five and \<^verbatim>\<open>at\<close> throws, or the
  final \<^verbatim>\<open>statsVectorToMsg\<close> reads index 5 of the five-entry estimate.\<close>

lemma consensus_never_returns: "consensus st \<noteq> Inr st'"
proof
  assume "consensus st = Inr st'"
  then obtain x phi incr x' r where
    x: "statsMsgToVector st (estimated_statistics st) = Inr x" and
    x': "vec_add x incr = Inr x'" and
    r: "statsVectorToMsg (st\<lparr>received_statistics := [], phi_dot := phi\<rparr>) x' = Inr r"
    unfolding consensus_def Let_def by (blast dest!: bindE_Inr)
  from x have n: "number_of_stats st = 5" and "length x = 5"
    by (auto dest: statsMsgToVector_Inr)
  with x' have "length x' = 5" by (auto dest: vec_add_Inr)
  with n r show False by (simp add: statsVectorToMsg_five)
qed

text \<open>Claim C1 (for a batch of any size the new estimate is
  \<open>e + dt*phi_dot + dt * \<Sum> (r - e)\<close> over every buffered observation \<open>r\<close>).
  The code does not: with one buffered observation the step throws
  \<^verbatim>\<open>std::out_of_range\<close> from \<^verbatim>\<open>msg.at(1)\<close> and produces no estimate, and of six
  buffered observations only the first five reach the matrix that is summed.\<close>

theorem consensus_short_batch_throws:
  "consensus (agent0\<lparr>received_statistics := [obs 1]\<rparr>) = Inl VectorAtOutOfRange
   \<and> statsMsgToMatrix agent0 [obs 1, obs 2, obs 3, obs 4, obs 5, obs 6] =
       Inr [[1, 1, 1, 1, 1], [2, 2, 2, 2, 2], [3, 3, 3, 3, 3], [4, 4, 4, 4, 4],
            [5, 5, 5, 5, 5]]"
  by (simp add: consensus_def bindE_def statsMsgToVector_def statsMsgToMatrix_def
      comma_init_def agent0_def obs_def upt_conv_Cons)

text \<open>Claim C6 (after a consensus step the buffer is empty, so a second step with no new
  delivery completes without error and adds only \<open>dt*phi_dot\<close>).
  The code does not: on an empty buffer the step throws \<^verbatim>\<open>std::out_of_range\<close> from
  \<^verbatim>\<open>msg.at(0)\<close>, before the estimate is touched.\<close>

theorem consensus_empty_buffer_throws:
  "received_statistics agent0 = [] \<and> consensus agent0 = Inl VectorAtOutOfRange"
  by (simp add: consensus_def bindE_def statsMsgToVector_def statsMsgToMatrix_def
      comma_init_def agent0_def upt_conv_Cons)

subsection \<open>The control step\<close>

text \<open>A Jacobian of at most five rows has no row 5: the fourth write fails, if not an
  earlier one.\<close>

lemma control_jacobian_five_rows:
  assumes "mat_rows (jacob_phi st) \<le> 5"
  shows "control_jacobian st = Inl EigenAssertion"
proof (cases "control_jacobian st")
  case (Inl e)
  then show ?thesis
    by (auto simp: control_jacobian_def bindE_def mat_set_def split: sum.splits if_splits)
next
  case (Inr st1)
  then obtain j1 j2 j3 j4 where
    w1: "mat_set (jacob_phi st) 3 1 (2 * position_x (pose_virtual st)) = Inr j1" and
    w2: "mat_set j1 4 1 (position_y (pose_virtual st)) = Inr j2" and
    w3: "mat_set j2 4 2 (position_x (pose_virtual st)) = Inr j3" and
    w4: "mat_set j3 5 2 (2 * position_y (pose_virtual st)) = Inr j4"
    unfolding control_jacobian_def by (blast dest!: bindE_Inr)
  from mat_set_rows[OF w1] mat_set_rows[OF w2] mat_set_rows[OF w3] mat_set_rows[OF w4]
  have "5 < mat_rows (jacob_phi st)" by simp
  with assms show ?thesis by simp
qed

text \<open>Claim C3 (every element access of a control step is within bounds for the 5 by 2
  Jacobian and the 2-vector command, so the step is total).
  The code does not: on the 5 by 2 Jacobian the writes at (4,2) and (5,2) are out of
  range, on a 2-vector the read at index 2 is out of range, and the control step of
  the agent fails.\<close>

theorem control_index_out_of_range:
  "mat_rows (jacob_phi agent0) = 5 \<and> mat_cols (jacob_phi agent0) = 2
   \<and> mat_set (jacob_phi agent0) 4 2 a = Inl EigenAssertion
   \<and> mat_set (jacob_phi agent0) 5 2 a = Inl EigenAssertion
   \<and> coeff [u1, u2] 2 = Inl EigenAssertion
   \<and> control minv agent0 = Inl EigenAssertion"
  by (simp add: control_def control_jacobian_def bindE_def statsMsgToVector_def
      comma_init_def vec_sub_def mat_set_def mat_rows_def mat_cols_def mat_identity_def
      coeff_def agent0_def upt_conv_Cons FormationStatistics_default_def)

text \<open>Claim C7 (a command of magnitude above the threshold is scaled to the threshold with
  its direction kept; a command at the threshold passes unscaled).
  The code does not: for the command (3, 4) and the threshold 2.5 the magnitude is
  computed from the entries at the indices 1 and 2, and the read at index 2 of the
  2-vector fails; no scaled command is produced.\<close>

theorem control_saturation_index_out_of_range:
  "control_saturation (agent0\<lparr>velocity_virtual_threshold := 5 / 2\<rparr>) [3, 4]
     = Inl EigenAssertion"
  by (simp add: control_saturation_def bindE_def coeff_def)

subsection \<open>The dynamics step\<close>

text \<open>What a dynamics step computes when the vehicle length is not 0 and the steering
  command is not at a pole of the tangent: \<open>x\<close> and the heading are integrated from the
  stored rate and the new rate, \<open>y\<close> from the new rate twice, and the twist becomes the
  new rates.\<close>

lemma dynamics_result:
  assumes "vehicle_length st \<noteq> 0" and "cos (steer_command_sat st) \<noteq> 0"
  shows "\<exists>st'. dynamics st = Inr st'
   \<and> position_x (pose st') =
     integrator st (position_x (pose st)) (linear_x (twist st))
       (speed_command_sat st * cos (getTheta (pose st))) 1
   \<and> position_y (pose st') =
     integrator st (position_y (pose st)) (speed_command_sat st * sin (getTheta (pose st)))
       (speed_command_sat st * sin (getTheta (pose st))) 1
   \<and> theta (pose st') =
     integrator st (getTheta (pose st)) (angular_z (twist st))
       (speed_command_sat st / vehicle_length st * tan (steer_command_sat st)) 1
   \<and> twist st' =
     \<lparr>linear_x = speed_command_sat st * cos (getTheta (pose st)),
      linear_y = speed_command_sat st * sin (getTheta (pose st)),
      angular_z = speed_command_sat st / vehicle_length st * tan (steer_command_sat st)\<rparr>"
  using assms
  by (simp add: dynamics_def Let_def integrator_def setTheta_def ros_log_def bindE_def
      stored_def dtan_def tan_def)

text \<open>Claim C4 (each of x, y and theta is advanced by the trapezoidal integrator over the
  rate stored before the step and the new rate; the stored twist is updated only
  after the three integrations).
  The code does not for \<open>y\<close>: line 152 stores the new rate in \<^verbatim>\<open>twist_.linear.y\<close> before
  the integration. For the agent at rest heading along the y axis with speed command 1
  and sample time 1, the stored rate is 0 and the new rate is 1, the trapezoidal step
  over the two is 1/2, and the code advances \<open>y\<close> by 1.\<close>

theorem dynamics_y_uses_new_rate_twice:
  "linear_y (twist agent_heading_y) = 0
   \<and> speed_command_sat agent_heading_y * sin (getTheta (pose agent_heading_y)) = 1
   \<and> integrator agent_heading_y (position_y (pose agent_heading_y))
        (linear_y (twist agent_heading_y))
        (speed_command_sat agent_heading_y * sin (getTheta (pose agent_heading_y))) 1 = 1 / 2
   \<and> (\<exists>st'. dynamics agent_heading_y = Inr st' \<and> position_y (pose st') = 1)"
  by (simp add: dynamics_def Let_def integrator_def getTheta_def atan2_def setTheta_def
      ros_log_def bindE_def stored_def dtan_def agent0_def agent_heading_y_def)

subsection \<open>The guidance step\<close>

text \<open>With a non-zero threshold the speed path stays finite and is the computation on
  the reals.\<close>

lemma guidance_speed_finite:
  assumes "los_distance_threshold st \<noteq> 0"
  shows "guidance_speed st =
    (let speed_reference =
           min (speed_max st * los_distance st / los_distance_threshold st) (speed_max st);
         err = speed_reference - sqrt (linear_x (twist st) ^ 2 + linear_y (twist st) ^ 2);
         integ = integrator st (speed_integral st) (speed_error st) err (k_i_speed st)
     in (Fin err, Fin integ,
         Fin (saturation (k_p_speed st * (err + integ)) (speed_min st) (speed_max st))))"
  using assms
  by (simp add: guidance_speed_def Let_def dmin_def dmax_def dsub_def dintegrator_def
      dsaturation_def integrator_def saturation_def min_def max_def)

text \<open>With the threshold 0 and a positive product of maximal speed and distance the
  quotient is \<open>+\<infinity>\<close>, \<^verbatim>\<open>std::min\<close> returns the maximal speed, and the speed path is
  finite again.\<close>

lemma guidance_speed_threshold_zero_positive:
  assumes "los_distance_threshold st = 0" and "0 < speed_max st * los_distance st"
  shows "guidance_speed st =
    (let err = speed_max st - sqrt (linear_x (twist st) ^ 2 + linear_y (twist st) ^ 2);
         integ = integrator st (speed_integral st) (speed_error st) err (k_i_speed st)
     in (Fin err, Fin integ,
         Fin (saturation (k_p_speed st * (err + integ)) (speed_min st) (speed_max st))))"
  using assms
  by (simp add: guidance_speed_def Let_def dmin_def dmax_def dsub_def dintegrator_def
      dsaturation_def integrator_def saturation_def min_def max_def inf_of_sign_def)

text \<open>Claim C9, as stated (in every guidance step the speed command is
  \<open>k_p_speed * (error + integral)\<close> saturated into \<open>[speed_min, speed_max]\<close>), fails where
  the line-of-sight threshold is 0 and the virtual agent is at the position of the
  agent: the quotient is \<open>0/0\<close>, the speed error, the integral and the saturated command
  are NaN, and no command of the interval \<open>[0, 1]\<close> is stored.\<close>

theorem guidance_threshold_zero_nan:
  "los_distance_threshold agent_threshold_zero = 0
   \<and> guidance_speed agent_threshold_zero = (NaN, NaN, NaN)
   \<and> guidance agent_threshold_zero = Inl (NonFinite NaN)"
  by (simp add: guidance_def guidance_speed_def Let_def dmin_def dmax_def dsub_def
      dintegrator_def dsaturation_def inf_of_sign_def stored_def bindE_def atan2_def
      agent_threshold_zero_def agent0_def)

text \<open>Claim C9, amended: in every guidance step with a non-zero line-of-sight threshold
  the speed reference is
  \<open>min (speed_max * los_distance / los_distance_threshold) speed_max\<close>, the speed error is
  the reference minus the current speed, the integral advances by
  \<open>k_i_speed * sample_time * (old error + new error) / 2\<close>, and the stored speed command is
  \<open>k_p_speed * (error + integral)\<close> clamped by \<open>min (max _ speed_min) speed_max\<close>: it lies in
  \<open>[speed_min, speed_max]\<close> when that interval is not empty and is the unclamped command
  when that lies in the interval.\<close>

theorem guidance_speed_command:
  "los_distance_threshold st \<noteq> 0 \<Longrightarrow>
   \<exists>st'. guidance st = Inr st' \<and>
   (let d = sqrt ((position_x (pose_virtual st) - position_x (pose st)) ^ 2
                  + (position_y (pose_virtual st) - position_y (pose st)) ^ 2);
        speed_reference = min (speed_max st * d / los_distance_threshold st) (speed_max st);
        err = speed_reference - sqrt (linear_x (twist st) ^ 2 + linear_y (twist st) ^ 2);
        integ = speed_integral st + k_i_speed st * sample_time st * (speed_error st + err) / 2;
        cmd = k_p_speed st * (err + integ)
    in los_distance st' = d
       \<and> speed_error st' = err
       \<and> speed_integral st' = integ
       \<and> speed_command_sat st' = min (max cmd (speed_min st)) (speed_max st)
       \<and> (speed_min st \<le> speed_max st \<longrightarrow>
            speed_min st \<le> speed_command_sat st' \<and> speed_command_sat st' \<le> speed_max st)
       \<and> (speed_min st \<le> cmd \<and> cmd \<le> speed_max st \<longrightarrow> speed_command_sat st' = cmd))"
  by (simp add: guidance_def guidance_speed_finite Let_def integrator_def saturation_def
      ros_log_def bindE_def stored_def)

theorem guidance_speed_command_witness:
  "los_distance_threshold agent_los \<noteq> 0
   \<and> speed_min agent_los \<le> speed_max agent_los
   \<and> (\<exists>st'. guidance agent_los = Inr st'
        \<and> los_distance st' = 1
        \<and> speed_error st' = 1 / 2
        \<and> speed_integral st' = 1 / 4
        \<and> speed_command_sat st' = 3 / 4)"
  using guidance_speed_command [of agent_los]
  by (auto simp: agent_los_def agent0_def Let_def)

subsection \<open>The receive handler\<close>

lemma stoi_examples:
  "stoi ''2'' = Inr 2"
  "stoi '' -7'' = Inr (- 7)"
  "stoi ''12abc'' = Inr 12"
  "stoi ''1_virtual'' = Inr 1"
  "stoi ''abc'' = Inl StoiInvalidArgument"
  "stoi [] = Inl StoiInvalidArgument"
  "stoi ''99999999999'' = Inl StoiOutOfRange"
  by (simp_all add: stoi_def isspace_def isdigit_def digits_value_def digit_value_def)

text \<open>When every sender converts, the loop appends the statistics of the senders in the
  neighbour set, in the order of the batch.\<close>

lemma receivedStatsCallback_loop_all_convert:
  "list_all (\<lambda>d. \<not> isl (stoi (frame_id d))) received \<Longrightarrow>
   receivedStatsCallback_loop received st =
     Inr (st\<lparr>received_statistics := received_statistics st @
            map stats (filter (\<lambda>d. projr (stoi (frame_id d)) \<in> set (neighbours st)) received)\<rparr>)"
proof (induction received arbitrary: st)
  case Nil
  then show ?case by simp
next
  case (Cons d ds)
  then obtain k where k: "stoi (frame_id d) = Inr k"
    by (cases "stoi (frame_id d)") auto
  from Cons.prems have "list_all (\<lambda>d. \<not> isl (stoi (frame_id d))) ds" by simp
  note ih = Cons.IH[OF this]
  show ?case by (simp add: k bindE_def ih)
qed

text \<open>Otherwise the loop ends with the exception of the first sender that does not
  convert.\<close>

lemma receivedStatsCallback_loop_throws:
  "find (\<lambda>d. isl (stoi (frame_id d))) received = Some d \<Longrightarrow>
   receivedStatsCallback_loop received st = Inl (projl (stoi (frame_id d)))"
proof (induction received arbitrary: st)
  case Nil
  then show ?case by simp
next
  case (Cons d' ds)
  show ?case
  proof (cases "stoi (frame_id d')")
    case (Inl e)
    with Cons.prems show ?thesis by (simp add: bindE_def)
  next
    case (Inr k)
    with Cons.prems have "find (\<lambda>d. isl (stoi (frame_id d))) ds = Some d" by simp
    from Cons.IH[OF this] show ?thesis by (simp add: Inr bindE_def)
  qed
qed

text \<open>Claim C5 (a delivery that finds an undrained buffer logs a warning and leaves only
  the observations of the latest batch in the buffer).
  The code logs the warning and keeps the stale observations: a delivery of one
  observation from neighbour 1 to a buffer holding one stale observation leaves both
  in the buffer, the stale one first.\<close>

theorem receivedStatsCallback_keeps_stale:
  "receivedStatsCallback [\<lparr>frame_id = ''1'', stats = obs 2\<rparr>]
     (agent0\<lparr>received_statistics := [obs 1]\<rparr>)
   = Inr (agent0\<lparr>received_statistics := [obs 1, obs 2],
            console := [(LogWarn,
                     ''[AgentCore::receivedStatsCallback] Last received statistics has not been used.''),
                    (LogDebug, ''[AgentCore::receivedStatsCallback] Received statistics'')]\<rparr>)"
  by (simp add: receivedStatsCallback_def bindE_def stoi_def isspace_def isdigit_def
      digits_value_def digit_value_def ros_log_def agent0_def)

text \<open>Claim C10, as stated (only observations whose \<^verbatim>\<open>frame_id\<close> is a decimal integer of
  the neighbour set are kept, and a \<^verbatim>\<open>frame_id\<close> that is not a valid integer string makes
  \<^verbatim>\<open>std::stoi\<close> throw), fails for a \<^verbatim>\<open>frame_id\<close> that starts with digits and goes on
  with other characters: \<^verbatim>\<open>1_virtual\<close> is not an integer string, \<^verbatim>\<open>std::stoi\<close> converts it
  to 1 without throwing, and the observation is kept as one of neighbour 1.\<close>

theorem receivedStatsCallback_keeps_trailing_junk:
  "\<not> valid_integer_string ''1_virtual''
   \<and> stoi ''1_virtual'' = Inr 1
   \<and> receivedStatsCallback [\<lparr>frame_id = ''1_virtual'', stats = obs 1\<rparr>] agent0
       = Inr (agent0\<lparr>received_statistics := [obs 1],
                console := [(LogDebug, ''[AgentCore::receivedStatsCallback] Received statistics'')]\<rparr>)"
  by (simp add: valid_integer_string_def receivedStatsCallback_def bindE_def stoi_def
      isspace_def isdigit_def digits_value_def digit_value_def ros_log_def agent0_def)

text \<open>Claim C10, amended: when \<^verbatim>\<open>std::stoi\<close> converts the \<^verbatim>\<open>frame_id\<close> of every observation
  of a batch (it skips leading white space, reads an optional sign and the longest run
  of decimal digits, ignores what follows them, and the value fits an \<^verbatim>\<open>int\<close>), the
  handler returns and has appended to the buffer, in arrival order,
  the statistics of exactly those observations whose converted \<^verbatim>\<open>frame_id\<close> is in the
  neighbour set; when some \<^verbatim>\<open>frame_id\<close> does not convert, the handler does not return:
  it ends with the exception that \<^verbatim>\<open>std::stoi\<close> throws for the first such \<^verbatim>\<open>frame_id\<close>,
  and the observation is not discarded.\<close>

theorem receivedStatsCallback_filters_neighbours:
  "(list_all (\<lambda>d. \<not> isl (stoi (frame_id d))) received \<longrightarrow>
      (\<exists>st'. receivedStatsCallback received st = Inr st' \<and>
         received_statistics st' = received_statistics st @
           map stats (filter (\<lambda>d. projr (stoi (frame_id d)) \<in> set (neighbours st)) received)))
   \<and> (\<forall>d. find (\<lambda>d. isl (stoi (frame_id d))) received = Some d \<longrightarrow>
         receivedStatsCallback received st = Inl (projl (stoi (frame_id d))))"
  by (auto simp: receivedStatsCallback_def receivedStatsCallback_loop_all_convert
      receivedStatsCallback_loop_throws bindE_def ros_log_def)

theorem receivedStatsCallback_filters_neighbours_witness:
  "list_all (\<lambda>d. \<not> isl (stoi (frame_id d)))
     [\<lparr>frame_id = ''2'', stats = obs 1\<rparr>, \<lparr>frame_id = ''7'', stats = obs 2\<rparr>,
      \<lparr>frame_id = ''1'', stats = obs 3\<rparr>]
   \<and> (\<exists>st'. receivedStatsCallback
         [\<lparr>frame_id = ''2'', stats = obs 1\<rparr>, \<lparr>frame_id = ''7'', stats = obs 2\<rparr>,
          \<lparr>frame_id = ''1'', stats = obs 3\<rparr>] agent0 = Inr st'
        \<and> received_statistics st' = [obs 1, obs 3])
   \<and> find (\<lambda>d. isl (stoi (frame_id d)))
       [\<lparr>frame_id = ''2'', stats = obs 1\<rparr>, \<lparr>frame_id = ''abc'', stats = obs 2\<rparr>]
       = Some \<lparr>frame_id = ''abc'', stats = obs 2\<rparr>
   \<and> receivedStatsCallback
       [\<lparr>frame_id = ''2'', stats = obs 1\<rparr>, \<lparr>frame_id = ''abc'', stats = obs 2\<rparr>] agent0
       = Inl StoiInvalidArgument"
  using receivedStatsCallback_filters_neighbours
          [of "[\<lparr>frame_id = ''2'', stats = obs 1\<rparr>, \<lparr>frame_id = ''7'', stats = obs 2\<rparr>,
                \<lparr>frame_id = ''1'', stats = obs 3\<rparr>]" agent0]
        receivedStatsCallback_filters_neighbours
          [of "[\<lparr>frame_id = ''2'', stats = obs 1\<rparr>, \<lparr>frame_id = ''abc'', stats = obs 2\<rparr>]" agent0]
  by (simp add: stoi_def isspace_def isdigit_def digits_value_def digit_value_def agent0_def)

end
